theory Spec2Isabelle
  imports Complex_Main "HOL-Library.AList"
begin

section \<open>Python values and errors\<close>

text \<open>
  The repository is Python. Every exception a modelled statement can raise is a value of
  \<open>py_error\<close>; a function that may raise returns \<open>py_error + 'a\<close> with \<open>Inl\<close> for the
  exception. The messages of the exceptions the repository raises itself are the
  source's (written without the back quotes around identifiers); the messages of
  built-in exceptions name the failing operation.
\<close>

datatype py_error =
    RuntimeError string
  | TypeError string
  | ValueError string
  | IndexError string
  | KeyError string
  | AttributeError string
  | AssertionError
  | NotModelled string

section \<open>utils/io.py\<close>

text \<open>
  Standard output is the list of the lines printed, oldest first. \<open>'-' * n\<close> is the
  empty string for a negative \<open>n\<close>, as \<open>replicate (nat n)\<close> is.
\<close>

definition dashes :: "int \<Rightarrow> string" where
  "dashes n = replicate (nat n) CHR ''-''"

text \<open>
  \<^verbatim>\<open>
  def print_split_line(content=None, length=60):
      if content is None:
          print('-' * length)
      if len(content) > length - 4:
          length = len(content) + 4
      total_num = length - len(content) - 2
      left_num = total_num // 2
      right_num = total_num - left_num
      print('-' * left_num, end=' ')
      print(content, end=' ')
      print('-' * right_num)
  \<close>
  The first \<open>if\<close> has no \<open>return\<close>: with \<open>content = None\<close> the dash line is printed and
  control reaches \<open>len(content)\<close>, which raises.
\<close>

definition print_split_line :: "string option \<Rightarrow> int \<Rightarrow> (py_error + unit) \<times> string list" where
  "print_split_line content line_length =
     (let out1 = (if content = None then [dashes line_length] else [])
      in case content of
           None \<Rightarrow> (Inl (TypeError ''object of type NoneType has no len()''), out1)
         | Some c \<Rightarrow>
             (let len_c = int (length c);
                  length1 = (if len_c > line_length - 4 then len_c + 4 else line_length);
                  total_num = length1 - len_c - 2;
                  left_num = total_num div 2;
                  right_num = total_num - left_num
              in (Inr (), out1 @ [dashes left_num @ '' '' @ c @ '' '' @ dashes right_num])))"

text \<open>
  \<open>print_as_yaml(obj)\<close> prints \<open>yaml.dump(obj)\<close>; the serialiser is a library, taken as
  the parameter \<open>yaml_dump\<close> (it may raise). The call sites modelled here pass no file.
\<close>

definition print_as_yaml :: "('d \<Rightarrow> py_error + string) \<Rightarrow> 'd \<Rightarrow> (py_error + unit) \<times> string list" where
  "print_as_yaml yaml_dump obj =
     (case yaml_dump obj of Inl e \<Rightarrow> (Inl e, []) | Inr s \<Rightarrow> (Inr (), [s]))"

section \<open>attack/base.py: configuration\<close>

text \<open>
  The methods of \<open>base.py\<close> are modelled by the meaning of their statements, one
  function each. Outside the model is the import of the module:
  \<open>concat_tensor_labels\<close> ends in \<open>raise tensors, labels\<close>, which Python 3 rejects
  when it compiles the file.

  \<open>ImageClassifierAttackConfig\<close>. The three callables are opaque here (only their
  being \<open>None\<close> is inspected), so their types are parameters.
\<close>

record ('s, 'f, 'o) attack_config =
  sample_latents_fn :: "'s option"
  initial_num :: "int option"
  initial_latents_score_fn :: "'f option"
  initial_select_batch_size :: "int option"
  optimize_num :: "int option"
  optimize_batch_size :: int
  optimize_fn :: "'o option"
  final_num :: "int option"
  final_images_score_fn :: "'f option"
  final_select_batch_size :: "int option"
  save_dir :: "string option"
  save_optimized_images :: bool
  save_final_images :: bool
  save_normalize :: bool

definition warn_final_gt_optimize :: string where
  "warn_final_gt_optimize =
     ''the final number is larger than the optimize number, automatically set the latter to the fronter''"

definition warn_optimize_gt_initial :: string where
  "warn_optimize_gt_initial =
     ''the optimize number is larger than the initial number, automatically set the latter to the fronter''"

text \<open>
  \<open>_preprocess_config\<close>: four fatal checks in the source's order, then the defaults and
  the two corrections of the counts, each with its warning. The result is the exception
  or the updated configuration, with the warnings emitted. \<open>not config.save_dir\<close> holds
  for \<open>None\<close> and for the empty string. The last assignment of the source copies
  \<open>final_select_batch_size\<close> onto itself and so changes nothing.
\<close>

definition preprocess_config ::
  "('s, 'f, 'o) attack_config \<Rightarrow> (py_error + ('s, 'f, 'o) attack_config) \<times> string list" where
  "preprocess_config config =
     (if (save_optimized_images config \<or> save_final_images config)
          \<and> (save_dir config = None \<or> save_dir config = Some [])
      then (Inl (RuntimeError ''save_dir is not set''), [])
      else if sample_latents_fn config = None
      then (Inl (RuntimeError ''sample_latents_fn cannot be None''), [])
      else if optimize_fn config = None
      then (Inl (RuntimeError ''optimize_fn cannot be None''), [])
      else case final_num config of
        None \<Rightarrow> (Inl (RuntimeError ''final_num cannot be None''), [])
      | Some fnum \<Rightarrow>
          (let inum = (case initial_num config of None \<Rightarrow> fnum | Some n \<Rightarrow> n);
               onum = (case optimize_num config of None \<Rightarrow> fnum | Some n \<Rightarrow> n);
               w1 = (if fnum > onum then [warn_final_gt_optimize] else []);
               onum1 = (if fnum > onum then fnum else onum);
               w2 = (if onum1 > inum then [warn_optimize_gt_initial] else []);
               inum1 = (if onum1 > inum then onum1 else inum);
               isb = (case initial_select_batch_size config of
                        None \<Rightarrow> optimize_batch_size config | Some b \<Rightarrow> b);
               fsb = (case final_select_batch_size config of
                        None \<Rightarrow> final_select_batch_size config | Some b \<Rightarrow> Some b)
           in (Inr (config\<lparr>initial_num := Some inum1, optimize_num := Some onum1,
                       initial_select_batch_size := Some isb,
                       final_select_batch_size := fsb\<rparr>),
               w1 @ w2)))"

text \<open>
  The attacker object and the method \<open>__init__\<close>:
  \<^verbatim>\<open>
  def __init__(self, config, metrics):
      self.config = self._preprocess_config(config)
      self.metrics = metrics
      self.optimized_images = []
      self.optimized_labels = []
  \<close>
  \<open>attacker_init\<close> is this method alone, not the construction of an attacker (that is
  \<open>construct_attacker\<close> below).
\<close>

record ('s, 'f, 'o, 'm, 'i) attacker =
  config :: "('s, 'f, 'o) attack_config"
  metrics :: "'m list"
  optimized_images :: "'i list list"
  optimized_labels :: "int list list"

definition attacker_init ::
  "('s, 'f, 'o) attack_config \<Rightarrow> 'm list \<Rightarrow>
     (py_error + ('s, 'f, 'o, 'm, 'i) attacker) \<times> string list" where
  "attacker_init cfg ms =
     (case preprocess_config cfg of
        (Inl e, ws) \<Rightarrow> (Inl e, ws)
      | (Inr c, ws) \<Rightarrow>
          (Inr \<lparr>config = c, metrics = ms, optimized_images = [], optimized_labels = []\<rparr>, ws))"

text \<open>
  Constructing an attacker is the call \<open>ImageClassifierAttacker(config, metrics)\<close>. The
  class statement is \<open>class ImageClassifierAttacker(ABCMeta)\<close>: \<open>ABCMeta\<close> is a base
  class, not the metaclass, so the call of the class runs
  \<open>ABCMeta.__new__(mcls, name, bases, namespace)\<close> with the class and the two
  arguments. The parameter \<open>namespace\<close> gets no argument and \<open>__new__\<close> raises;
  \<open>__init__\<close> runs only on an object that \<open>__new__\<close> returned. \<open>abcmeta_new\<close> takes
  the number of arguments after the class; with all three it would create a class,
  which is not modelled.
\<close>

definition abcmeta_new :: "nat \<Rightarrow> py_error + unit" where
  "abcmeta_new n_args =
     (if n_args < 3
      then Inl (TypeError ''ABCMeta.__new__() missing 1 required positional argument: namespace'')
      else Inl (NotModelled ''creating a class from name, bases and namespace''))"

definition construct_attacker ::
  "('s, 'f, 'o) attack_config \<Rightarrow> 'm list \<Rightarrow>
     (py_error + ('s, 'f, 'o, 'm, 'i) attacker) \<times> string list" where
  "construct_attacker cfg ms =
     (case abcmeta_new 2 of
        Inl e \<Rightarrow> (Inl e, [])
      | Inr obj \<Rightarrow> attacker_init cfg ms)"

section \<open>attack/base.py: evaluation report\<close>

text \<open>
  A dictionary whose order matters (\<open>OrderedDict\<close>) is an association list with
  distinct keys; \<open>d[k] = v\<close> is \<open>AList.update\<close>, which overwrites in place or appends.
\<close>

fun dict_update_all :: "('k \<times> 'v) list \<Rightarrow> ('k \<times> 'v) list \<Rightarrow> ('k \<times> 'v) list" where
  "dict_update_all [] d = d"
| "dict_update_all ((k, v) # kvs) d = dict_update_all kvs (AList.update k v d)"

fun run_metrics ::
  "('i \<Rightarrow> 'l \<Rightarrow> py_error + (string \<times> 'v) list) list \<Rightarrow> 'i \<Rightarrow> 'l \<Rightarrow>
     (string \<times> 'v) list \<Rightarrow> py_error + (string \<times> 'v) list" where
  "run_metrics [] images labels result = Inr result"
| "run_metrics (metric # ms) images labels result =
     (case metric images labels of
        Inl e \<Rightarrow> Inl e
      | Inr d \<Rightarrow> run_metrics ms images labels (dict_update_all d result))"

text \<open>
  \<^verbatim>\<open>
  def _evaluation(self, images, labels, description):
      result = OrderedDict()
      for metric in self.metrics:
          for k, v in metric(images, labels).items():
              result[k] = v
      print_split_line(description)
      print_as_yaml(result)
      print_split_line()
  \<close>
\<close>

definition evaluation ::
  "('i \<Rightarrow> 'l \<Rightarrow> py_error + (string \<times> 'v) list) list \<Rightarrow>
     ((string \<times> 'v) list \<Rightarrow> py_error + string) \<Rightarrow> 'i \<Rightarrow> 'l \<Rightarrow> string option \<Rightarrow>
     (py_error + unit) \<times> string list" where
  "evaluation ms yaml_dump images labels description =
     (case run_metrics ms images labels [] of
        Inl e \<Rightarrow> (Inl e, [])
      | Inr result \<Rightarrow>
          (case print_split_line description 60 of
             (Inl e, out1) \<Rightarrow> (Inl e, out1)
           | (Inr _, out1) \<Rightarrow>
               (case print_as_yaml yaml_dump result of
                  (Inl e, out2) \<Rightarrow> (Inl e, out1 @ out2)
                | (Inr _, out2) \<Rightarrow>
                    (case print_split_line None 60 of
                       (Inl e, out3) \<Rightarrow> (Inl e, out1 @ out2 @ out3)
                     | (Inr _, out3) \<Rightarrow> (Inr (), out1 @ out2 @ out3)))))"

section \<open>utils/batch.py\<close>

subsection \<open>The values a batched function returns\<close>

text \<open>
  A tensor is the list of its slices along axis 0 (its rows, of any type \<open>'t\<close>);
  \<open>torch.cat(_, dim=0)\<close> appends the rows. A \<open>dict\<close> is an association list in
  insertion order (its keys distinct, as in Python), a tuple or named tuple the list of
  its fields; \<open>PFloat\<close> stands for the values that are none of these and cannot be
  iterated (a Python number).
\<close>

datatype 't pyval =
    Tensor "'t list"
  | PNone
  | Dict "(string \<times> 't pyval) list"
  | NamedTuple string "'t pyval list"
  | Tuple "'t pyval list"
  | PFloat real

text \<open>\<open>torch.cat(outputs, dim=0)\<close>: every element has to be a tensor.\<close>

fun torch_cat :: "'t pyval list \<Rightarrow> py_error + 't list" where
  "torch_cat [] = Inr []"
| "torch_cat (Tensor rows # rest) =
     (case torch_cat rest of Inl e \<Rightarrow> Inl e | Inr rows' \<Rightarrow> Inr (rows @ rows'))"
| "torch_cat (_ # rest) = Inl (TypeError ''expected Tensor as element of argument 0'')"

text \<open>\<open>len(d)\<close> and \<open>d[k]\<close> for a string key \<open>k\<close>, on each kind of value.\<close>

fun py_len :: "'t pyval \<Rightarrow> py_error + nat" where
  "py_len (Tensor rows) = Inr (length rows)"
| "py_len (Dict kvs) = Inr (length kvs)"
| "py_len (NamedTuple n vs) = Inr (length vs)"
| "py_len (Tuple vs) = Inr (length vs)"
| "py_len PNone = Inl (TypeError ''object of type NoneType has no len()'')"
| "py_len (PFloat x) = Inl (TypeError ''object of type float has no len()'')"

fun py_getitem :: "'t pyval \<Rightarrow> string \<Rightarrow> py_error + 't pyval" where
  "py_getitem (Dict kvs) k = (case map_of kvs k of None \<Rightarrow> Inl (KeyError k) | Some v \<Rightarrow> Inr v)"
| "py_getitem (Tensor rows) k = Inl (IndexError ''only integers and slices are valid indices'')"
| "py_getitem (NamedTuple n vs) k = Inl (TypeError ''tuple indices must be integers or slices'')"
| "py_getitem (Tuple vs) k = Inl (TypeError ''tuple indices must be integers or slices'')"
| "py_getitem PNone k = Inl (TypeError ''NoneType object is not subscriptable'')"
| "py_getitem (PFloat x) k = Inl (TypeError ''float object is not subscriptable'')"

text \<open>
  \<open>all(len(out) == len(d) for d in outputs)\<close> evaluates from the left and stops at the
  first difference; a \<open>len\<close> that raises on the way raises out of it.
\<close>

fun same_key_count :: "nat \<Rightarrow> 't pyval list \<Rightarrow> py_error + bool" where
  "same_key_count n [] = Inr True"
| "same_key_count n (d # ds) =
     (case py_len d of
        Inl e \<Rightarrow> Inl e
      | Inr m \<Rightarrow> if n = m then same_key_count n ds else Inr False)"

text \<open>\<open>[d[k] for d in outputs]\<close>.\<close>

fun getitem_all :: "string \<Rightarrow> 't pyval list \<Rightarrow> py_error + 't pyval list" where
  "getitem_all k [] = Inr []"
| "getitem_all k (d # ds) =
     (case py_getitem d k of
        Inl e \<Rightarrow> Inl e
      | Inr v \<Rightarrow> (case getitem_all k ds of Inl e \<Rightarrow> Inl e | Inr vs \<Rightarrow> Inr (v # vs)))"

text \<open>
  \<open>zip(*outputs)\<close> asks every output for an iterator when it is built: \<open>None\<close> and a
  number raise. A tuple yields its fields. Iterating a tensor (its rows, as tensors of
  one dimension less) or a dict (its keys) inside a tuple position yields values
  \<open>'t pyval\<close> does not hold; that mixed case is marked \<open>NotModelled\<close> and no theorem
  below depends on it.
\<close>

fun py_iter :: "'t pyval \<Rightarrow> py_error + 't pyval list" where
  "py_iter (Tuple vs) = Inr vs"
| "py_iter (NamedTuple n vs) = Inr vs"
| "py_iter PNone = Inl (TypeError ''NoneType object is not iterable'')"
| "py_iter (PFloat x) = Inl (TypeError ''float object is not iterable'')"
| "py_iter (Tensor rows) = Inl (NotModelled ''iterating a tensor inside zip'')"
| "py_iter (Dict kvs) = Inl (NotModelled ''iterating a dict inside zip'')"

fun iter_all :: "'t pyval list \<Rightarrow> py_error + 't pyval list list" where
  "iter_all [] = Inr []"
| "iter_all (d # ds) =
     (case py_iter d of
        Inl e \<Rightarrow> Inl e
      | Inr vs \<Rightarrow> (case iter_all ds of Inl e \<Rightarrow> Inl e | Inr vss \<Rightarrow> Inr (vs # vss)))"

subsection \<open>\<open>_gather\<close>\<close>

text \<open>
  \<^verbatim>\<open>
  def gather_map(outputs):
      out = outputs[0]
      if isinstance(out, torch.Tensor):
          return torch.cat(outputs, dim=dim)
      if out is None:
          return None
      if isinstance(out, dict):
          if not all(len(out) == len(d) for d in outputs):
              raise ValueError('All dicts must have the same number of keys')
          return type(out)((k, gather_map([d[k] for d in outputs])) for k in out)
      if _is_namedtuple(out):
          return type(out)._make(map(gather_map, zip(*outputs)))
      return type(out)(map(gather_map, zip(*outputs)))
  \<close>
  The recursion follows the first output \<open>out\<close>, so the model recurses on it and carries
  the other outputs along: \<open>gather_head out rest\<close> is \<open>gather_map (out # rest)\<close>.
  \<open>gather_items\<close> is the generator over the keys of \<open>out\<close> (with \<open>out[k]\<close> the value
  stored beside \<open>k\<close>, the keys being distinct), \<open>gather_fields\<close> the lazy
  \<open>map(gather_map, zip(...))\<close>: it stops at the shortest tuple and raises at the first
  column that raises.
\<close>

fun gather_head :: "'t pyval \<Rightarrow> 't pyval list \<Rightarrow> py_error + 't pyval"
  and gather_items :: "(string \<times> 't pyval) list \<Rightarrow> 't pyval list \<Rightarrow> py_error + (string \<times> 't pyval) list"
  and gather_fields :: "'t pyval list \<Rightarrow> 't pyval list list \<Rightarrow> py_error + 't pyval list" where
  "gather_head (Tensor rows) rest =
     (case torch_cat (Tensor rows # rest) of Inl e \<Rightarrow> Inl e | Inr rs \<Rightarrow> Inr (Tensor rs))"
| "gather_head PNone rest = Inr PNone"
| "gather_head (Dict kvs) rest =
     (case same_key_count (length kvs) (Dict kvs # rest) of
        Inl e \<Rightarrow> Inl e
      | Inr False \<Rightarrow> Inl (ValueError ''All dicts must have the same number of keys'')
      | Inr True \<Rightarrow>
          (case gather_items kvs rest of Inl e \<Rightarrow> Inl e | Inr kvs' \<Rightarrow> Inr (Dict kvs')))"
| "gather_head (NamedTuple n vs) rest =
     (case iter_all rest of
        Inl e \<Rightarrow> Inl e
      | Inr vss \<Rightarrow>
          (case gather_fields vs vss of
             Inl e \<Rightarrow> Inl e
           | Inr vs' \<Rightarrow>
               if length vs' = length vs then Inr (NamedTuple n vs')
               else Inl (TypeError ''_make: wrong number of fields'')))"
| "gather_head (Tuple vs) rest =
     (case iter_all rest of
        Inl e \<Rightarrow> Inl e
      | Inr vss \<Rightarrow>
          (case gather_fields vs vss of Inl e \<Rightarrow> Inl e | Inr vs' \<Rightarrow> Inr (Tuple vs')))"
| "gather_head (PFloat x) rest = Inl (TypeError ''float object is not iterable'')"
| "gather_items [] rest = Inr []"
| "gather_items ((k, v) # kvs) rest =
     (case getitem_all k rest of
        Inl e \<Rightarrow> Inl e
      | Inr vals \<Rightarrow>
          (case gather_head v vals of
             Inl e \<Rightarrow> Inl e
           | Inr g \<Rightarrow>
               (case gather_items kvs rest of
                  Inl e \<Rightarrow> Inl e
                | Inr gs \<Rightarrow> Inr ((k, g) # gs))))"
| "gather_fields [] rests = Inr []"
| "gather_fields (v # vs) rests =
     (if list_ex (\<lambda>r. r = []) rests then Inr []
      else case gather_head v (map hd rests) of
             Inl e \<Rightarrow> Inl e
           | Inr g \<Rightarrow>
               (case gather_fields vs (map tl rests) of
                  Inl e \<Rightarrow> Inl e
                | Inr gs \<Rightarrow> Inr (g # gs)))"

definition gather_map :: "'t pyval list \<Rightarrow> py_error + 't pyval" where
  "gather_map outputs =
     (case outputs of
        [] \<Rightarrow> Inl (IndexError ''list index out of range'')
      | out # rest \<Rightarrow> gather_head out rest)"

text \<open>\<open>_gather\<close> calls \<open>gather_map\<close> inside a \<open>try ... finally\<close> that only drops a reference.\<close>

definition gather :: "'t pyval list \<Rightarrow> py_error + 't pyval" where
  "gather outputs = gather_map outputs"

subsection \<open>\<open>batch_apply\<close>\<close>

text \<open>
  An input of \<open>batch_apply\<close> is a sequence (a tensor along axis 0, or a list), or an
  object without \<open>len\<close> (\<open>NoLen\<close>: a function, a number). The elements of all inputs
  share one type \<open>'x\<close>; a caller with inputs of two kinds uses a sum type.
\<close>

datatype 'x pyinput = Seq "'x list" | NoLen

text \<open>
  What a run does besides returning: the lines it prints and the calls of \<open>fn\<close>, each
  with the list of slices it was given, in the order they happen.
\<close>

datatype 'x event = Printed string | Called "'x list list"

fun called_chunks :: "'x event list \<Rightarrow> 'x list list list" where
  "called_chunks [] = []"
| "called_chunks (Called c # evs) = c # called_chunks evs"
| "called_chunks (Printed s # evs) = called_chunks evs"

text \<open>
  \<^verbatim>\<open>
  def _check_valid(inputs):
      if len(inputs) == 0:
          return
      lens = []
      for inp in inputs:
          try:
              lens.append(len(inp))
          except:
              raise RuntimeError('some inputs have no attr `len`')
      valid_len = lens[0]
      if not all(map(lambda x: x == valid_len, lens)):
          raise RuntimeError('lengths of all inputs are not the same')
  \<close>
\<close>

fun input_lens :: "'x pyinput list \<Rightarrow> py_error + int list" where
  "input_lens [] = Inr []"
| "input_lens (NoLen # rest) = Inl (RuntimeError ''some inputs have no attr len'')"
| "input_lens (Seq xs # rest) =
     (case input_lens rest of Inl e \<Rightarrow> Inl e | Inr ls \<Rightarrow> Inr (int (length xs) # ls))"

definition check_valid :: "'x pyinput list \<Rightarrow> py_error + unit" where
  "check_valid inputs =
     (if length inputs = 0 then Inr ()
      else case input_lens inputs of
             Inl e \<Rightarrow> Inl e
           | Inr lens \<Rightarrow>
               (case lens of
                  [] \<Rightarrow> Inl (IndexError ''list index out of range'')
                | valid_len # _ \<Rightarrow>
                    if list_all (\<lambda>x. x = valid_len) lens then Inr ()
                    else Inl (RuntimeError ''lengths of all inputs are not the same'')))"

text \<open>\<open>list(range(start, stop, step))\<close> on Python's integers.\<close>

definition py_range :: "int \<Rightarrow> int \<Rightarrow> int \<Rightarrow> py_error + int list" where
  "py_range start stop step =
     (if step = 0 then Inl (ValueError ''range() arg 3 must not be zero'')
      else
        (let n = (if step > 0
                  then (if start < stop then (stop - start + step - 1) div step else 0)
                  else (if stop < start then (start - stop - step - 1) div (- step) else 0))
         in Inr (map (\<lambda>k. start + int k * step) [0..<nat n])))"

text \<open>
  \<open>p[start:end]\<close> on a sequence: a negative index counts from the end, and both
  indices are clamped to the sequence.
\<close>

definition slice_index :: "nat \<Rightarrow> int \<Rightarrow> nat" where
  "slice_index n i = (if i < 0 then nat (max 0 (int n + i)) else min n (nat i))"

definition py_slice :: "'x list \<Rightarrow> int \<Rightarrow> int \<Rightarrow> 'x list" where
  "py_slice xs start stop =
     (let a = slice_index (length xs) start; b = slice_index (length xs) stop
      in take (b - a) (drop a xs))"

fun slice_all :: "'x pyinput list \<Rightarrow> int \<Rightarrow> int \<Rightarrow> py_error + 'x list list" where
  "slice_all [] start stop = Inr []"
| "slice_all (NoLen # rest) start stop = Inl (TypeError ''object is not subscriptable'')"
| "slice_all (Seq xs # rest) start stop =
     (case slice_all rest start stop of
        Inl e \<Rightarrow> Inl e
      | Inr cs \<Rightarrow> Inr (py_slice xs start stop # cs))"

text \<open>\<open>str(n)\<close> of a natural number, for the progress line.\<close>

fun str_nat :: "nat \<Rightarrow> string" where
  "str_nat n =
     (if n < 10 then [char_of (48 + n)]
      else str_nat (n div 10) @ [char_of (48 + n mod 10)])"

text \<open>
  \<^verbatim>\<open>
  for i, start in enumerate(starts, start=1):
      if description is not None:
          print_split_line(f'{description}: {i} / {iter_times}')
      end = min(total_len, start + batch_size)
      res = fn(*[p[start:end] for p in inputs])
      results.append(res)
  \<close>
  \<open>fn\<close> takes the list of slices and may raise; an exception ends the loop. (The
  \<open>tqdm\<close> wrapper of \<open>starts\<close> yields the same elements and is left out.)
\<close>

fun batch_loop ::
  "('x list list \<Rightarrow> py_error + 't pyval) \<Rightarrow> 'x pyinput list \<Rightarrow> int \<Rightarrow> int \<Rightarrow>
     string option \<Rightarrow> nat \<Rightarrow> nat \<Rightarrow> int list \<Rightarrow> 't pyval list \<Rightarrow>
     (py_error + 't pyval list) \<times> 'x event list" where
  "batch_loop fn inputs total_len batch_size description iter_times i [] results =
     (Inr results, [])"
| "batch_loop fn inputs total_len batch_size description iter_times i (start # starts) results =
     (case (case description of
              None \<Rightarrow> (Inr (), [])
            | Some d \<Rightarrow>
                print_split_line (Some (d @ '': '' @ str_nat i @ '' / '' @ str_nat iter_times)) 60)
      of
        (Inl e, out) \<Rightarrow> (Inl e, map Printed out)
      | (Inr _, out) \<Rightarrow>
          (case slice_all inputs start (min total_len (start + batch_size)) of
             Inl e \<Rightarrow> (Inl e, map Printed out)
           | Inr chunk \<Rightarrow>
               (case fn chunk of
                  Inl e \<Rightarrow> (Inl e, map Printed out @ [Called chunk])
                | Inr res \<Rightarrow>
                    (case batch_loop fn inputs total_len batch_size description iter_times
                            (Suc i) starts (results @ [res])
                     of (r, evs) \<Rightarrow> (r, map Printed out @ Called chunk # evs)))))"

fun input_len :: "'x pyinput \<Rightarrow> py_error + int" where
  "input_len (Seq xs) = Inr (int (length xs))"
| "input_len NoLen = Inl (TypeError ''object has no len()'')"

text \<open>
  \<^verbatim>\<open>
  def batch_apply(fn, *inputs, batch_size, description=None, use_tqdm=False):
      _check_valid(inputs)
      total_len = len(inputs[0])
      results = []
      starts = list(range(0, total_len, batch_size))
      iter_times = len(starts)
      for ...
      return _gather(results)
  \<close>
\<close>

definition batch_apply ::
  "('x list list \<Rightarrow> py_error + 't pyval) \<Rightarrow> 'x pyinput list \<Rightarrow> int \<Rightarrow> string option \<Rightarrow>
     (py_error + 't pyval) \<times> 'x event list" where
  "batch_apply fn inputs batch_size description =
     (case check_valid inputs of
        Inl e \<Rightarrow> (Inl e, [])
      | Inr _ \<Rightarrow>
          (case inputs of
             [] \<Rightarrow> (Inl (IndexError ''tuple index out of range''), [])
           | inp0 # _ \<Rightarrow>
               (case input_len inp0 of
                  Inl e \<Rightarrow> (Inl e, [])
                | Inr total_len \<Rightarrow>
                    (case py_range 0 total_len batch_size of
                       Inl e \<Rightarrow> (Inl e, [])
                     | Inr starts \<Rightarrow>
                         (case batch_loop fn inputs total_len batch_size description
                                 (length starts) 1 starts []
                          of
                            (Inl e, evs) \<Rightarrow> (Inl e, evs)
                          | (Inr results, evs) \<Rightarrow> (gather results, evs))))))"

subsection \<open>Chunks\<close>




section \<open>attack/base.py: selection\<close>

text \<open>
  The attacker batches a tensor (latents or images, rows of type \<open>'a\<close>) together with
  the labels, so an element of a batched input is a row or a label.
\<close>

datatype 'a cell = Item 'a | Label int

text \<open>Calling an optional callable: calling \<open>None\<close> raises.\<close>

definition call_optional :: "('c \<Rightarrow> py_error + 'v) option \<Rightarrow> 'c \<Rightarrow> py_error + 'v" where
  "call_optional f c =
     (case f of None \<Rightarrow> Inl (TypeError ''NoneType object is not callable'') | Some g \<Rightarrow> g c)"

text \<open>
  \<open>torch.topk(scores, k)\<close> on a one-dimensional score tensor: the positions of the \<open>k\<close>
  largest scores, largest first (equal scores in their order of position).
\<close>

definition topk_idx :: "real pyval \<Rightarrow> int \<Rightarrow> py_error + nat list" where
  "topk_idx scores k =
     (case scores of
        Tensor rows \<Rightarrow>
          if k < 0 \<or> int (length rows) < k then Inl (RuntimeError ''selected index k out of range'')
          else Inr (take (nat k) (sort_key (\<lambda>i. - (rows ! i)) [0..<length rows]))
      | _ \<Rightarrow> Inl (TypeError ''topk(): argument input must be Tensor''))"

text \<open>\<open>t[idx]\<close> for a list of positions, each in range or an \<open>IndexError\<close>.\<close>

fun index_select :: "'a list \<Rightarrow> nat list \<Rightarrow> py_error + 'a list" where
  "index_select xs [] = Inr []"
| "index_select xs (i # is) =
     (if i < length xs
      then (case index_select xs is of Inl e \<Rightarrow> Inl e | Inr ys \<Rightarrow> Inr (xs ! i # ys))
      else Inl (IndexError ''index out of range''))"

text \<open>
  \<^verbatim>\<open>
  def concat_tensor_labels(self, target_dict):
      tensors = []
      labels = []
      for target, latents in target_dict:
          tensors.append(latents)
          labels += [target] * len(latents)
      labels = LongTensor(labels)
      tensors = torch.cat(tensors, dim=0)
      raise tensors, labels
  \<close>
  The loop iterates the dictionary itself, which yields its keys (the integer labels),
  and unpacks each into two names: an integer cannot be unpacked. With no key the loop
  is skipped and \<open>torch.cat\<close> of the empty list raises. The last statement is a
  \<open>raise\<close>, not a \<open>return\<close>; no run with integer keys reaches it.
\<close>

definition unpack_pair :: "int \<Rightarrow> py_error + (int \<times> 'a list)" where
  "unpack_pair key = Inl (TypeError ''cannot unpack non-iterable int object'')"

fun concat_loop ::
  "int list \<Rightarrow> 'a list list \<Rightarrow> int list \<Rightarrow> py_error + ('a list list \<times> int list)" where
  "concat_loop [] tensors labels = Inr (tensors, labels)"
| "concat_loop (key # keys) tensors labels =
     (case unpack_pair key of
        Inl e \<Rightarrow> Inl e
      | Inr (target, latents) \<Rightarrow>
          concat_loop keys (tensors @ [latents]) (labels @ replicate (length latents) target))"

definition concat_tensor_labels :: "(int \<times> 'a list) list \<Rightarrow> py_error + ('a list \<times> int list)" where
  "concat_tensor_labels target_dict =
     (case concat_loop (map fst target_dict) ([] :: 'a list list) [] of
        Inl e \<Rightarrow> Inl e
      | Inr (tensors, labels) \<Rightarrow>
          (case tensors of
             [] \<Rightarrow> Inl (RuntimeError ''torch.cat(): expected a non-empty list of Tensors'')
           | _ \<Rightarrow> Inl (TypeError ''exceptions must derive from BaseException'')))"

text \<open>\<open>range(labels)\<close> with the list of labels as its argument: a list is not an integer.\<close>

definition range_of_list :: "int list \<Rightarrow> py_error + nat list" where
  "range_of_list labels = Inl (TypeError ''list object cannot be interpreted as an integer'')"

fun select_loop ::
  "nat list \<Rightarrow> int list \<Rightarrow> real pyval \<Rightarrow> int \<Rightarrow> 'a list \<Rightarrow> (int \<times> 'a list) list \<Rightarrow>
     py_error + (int \<times> 'a list) list" where
  "select_loop [] labels scores select_num raw_latents results = Inr results"
| "select_loop (i # is) labels scores select_num raw_latents results =
     (if length labels \<le> i then Inl (IndexError ''list index out of range'')
      else case topk_idx scores select_num of
             Inl e \<Rightarrow> Inl e
           | Inr idx \<Rightarrow>
               (case index_select raw_latents idx of
                  Inl e \<Rightarrow> Inl e
                | Inr chosen \<Rightarrow>
                    select_loop is labels scores select_num raw_latents
                      (AList.update (labels ! i) chosen results)))"

definition warn_sample_lt_select :: string where
  "warn_sample_lt_select = ''sample_num < select_num. set sample_num = select_num''"

definition warn_no_score_fn :: string where
  "warn_no_score_fn = ''no score function, automatically sample select_num latents''"

text \<open>
  \<^verbatim>\<open>
  def initial_latents(self, batch_size, sample_num, select_num, labels, latent_score_fn=None):
      if isinstance(labels, Tensor):
          labels = labels.tolist()
      if sample_num < select_num:
          warnings.warn('sample_num < select_num. set sample_num = select_num')
          sample_num = select_num
      if latent_score_fn is None or sample_num == select_num:
          if sample_num > select_num:
              warnings.warn('no score function, automatically sample `select_num` latents')
          latents = self.config.sample_latents_fn(select_num)
          {label: latents.detach().clone() for label in labels}
      raw_latents = self.config.sample_latents_fn(sample_num)
      scores = batch_apply(latent_score_fn, raw_latents, labels, batch_size=batch_size)
      results = {}
      for i in range(labels):
          label = labels[i]
          _, topk_idx = torch.topk(scores, k=select_num)
          results[label] = raw_latents[topk_idx]
      return self.concat_tensor_labels(results)
  \<close>
  The sampler draws from a random generator, so it takes the generator's state \<open>'r\<close>
  and returns the next one. The dictionary built in the first branch is dropped and the
  branch does not return: control goes on to the second sampling. The result is the
  exception or the pair of \<open>concat_tensor_labels\<close>, with the generator's state and the
  warnings emitted.
\<close>

definition initial_latents ::
  "('r \<Rightarrow> int \<Rightarrow> (py_error + 'a list) \<times> 'r) \<Rightarrow> int \<Rightarrow> int \<Rightarrow> int \<Rightarrow> int list \<Rightarrow>
     ('a cell list list \<Rightarrow> py_error + real pyval) option \<Rightarrow> 'r \<Rightarrow>
     (py_error + ('a list \<times> int list)) \<times> 'r \<times> string list" where
  "initial_latents sample_latents batch_size sample_num0 select_num labels latent_score_fn rng0 =
     (let w1 = (if sample_num0 < select_num then [warn_sample_lt_select] else []);
          sample_num = (if sample_num0 < select_num then select_num else sample_num0)
      in case (if latent_score_fn = None \<or> sample_num = select_num
               then (let w2 = (if sample_num > select_num then [warn_no_score_fn] else [])
                     in case sample_latents rng0 select_num of
                          (Inl e, rng1) \<Rightarrow> (Inl e, rng1, w2)
                        | (Inr latents, rng1) \<Rightarrow> (Inr (), rng1, w2))
               else (Inr (), rng0, []))
         of
           (Inl e, rng1, w2) \<Rightarrow> (Inl e, rng1, w1 @ w2)
         | (Inr _, rng1, w2) \<Rightarrow>
             (case sample_latents rng1 sample_num of
                (Inl e, rng2) \<Rightarrow> (Inl e, rng2, w1 @ w2)
              | (Inr raw_latents, rng2) \<Rightarrow>
                  (case fst (batch_apply (call_optional latent_score_fn)
                               [Seq (map Item raw_latents), Seq (map Label labels)]
                               batch_size None)
                   of
                     Inl e \<Rightarrow> (Inl e, rng2, w1 @ w2)
                   | Inr scores \<Rightarrow>
                       (case range_of_list labels of
                          Inl e \<Rightarrow> (Inl e, rng2, w1 @ w2)
                        | Inr idxs \<Rightarrow>
                            (case select_loop idxs labels scores select_num raw_latents [] of
                               Inl e \<Rightarrow> (Inl e, rng2, w1 @ w2)
                             | Inr results \<Rightarrow>
                                 (concat_tensor_labels results, rng2, w1 @ w2))))))"

text \<open>
  What \<open>final_selection\<close> hands back: its early \<open>return images\<close> returns the tensor
  alone, the other \<open>return\<close> the pair of \<open>concat_tensor_labels\<close>.
\<close>

datatype 'a selection = Images "'a list" | ImagesLabels "'a list" "int list"

definition warn_no_image_score_fn :: string where
  "warn_no_image_score_fn =
     ''no score function but final num is not equal to the number of latents''"

text \<open>\<open>torch.where(labels == target)\<close>: the positions holding \<open>target\<close>, ascending.\<close>

definition where_eq :: "int list \<Rightarrow> int \<Rightarrow> nat list" where
  "where_eq labels target = filter (\<lambda>i. labels ! i = target) [0..<length labels]"

fun final_loop ::
  "int list \<Rightarrow> 'a list \<Rightarrow> int list \<Rightarrow> real pyval \<Rightarrow> int \<Rightarrow> (int \<times> 'a list) list \<Rightarrow>
     py_error + (int \<times> 'a list) list" where
  "final_loop [] images labels scores k results = Inr results"
| "final_loop (target # targets) images labels scores k results =
     (case scores of
        Tensor rows \<Rightarrow>
          (case index_select images (where_eq labels target) of
             Inl e \<Rightarrow> Inl e
           | Inr target_images \<Rightarrow>
               (case index_select rows (where_eq labels target) of
                  Inl e \<Rightarrow> Inl e
                | Inr target_scores \<Rightarrow>
                    (case topk_idx (Tensor target_scores) k of
                       Inl e \<Rightarrow> Inl e
                     | Inr idx \<Rightarrow>
                         (case index_select target_images idx of
                            Inl e \<Rightarrow> Inl e
                          | Inr chosen \<Rightarrow>
                              final_loop targets images labels scores k
                                (AList.update target chosen results)))))
      | _ \<Rightarrow> Inl (TypeError ''scores is not a tensor''))"

text \<open>
  \<^verbatim>\<open>
  def final_selection(self, batch_size, final_num, images, labels, image_score_fn=None):
      assert len(images) == len(labels)
      if final_num != len(images) and image_score_fn is None:
          warnings.warn('no score function but final num is not equal to the number of latents')
          final_num = len(images)
      if final_num == len(images):
          return images
      print('execute final selection')
      scores = batch_apply(self, image_score_fn, images, labels, batch_size=batch_size)
      targets = set(labels.tolist())
      results = {}
      for target in targets:
          indices = torch.where(labels == target)
          target_images = images[indices]
          target_scores = scores[indices]
          _, topk_idx = torch.topk(target_scores, k=final_num)
          results[target] = target_images[topk_idx]
      return self.concat_tensor_labels(results)
  \<close>
  The call of \<open>batch_apply\<close> passes the attacker as the function and the score function
  as the first input: a function has no \<open>len\<close> (\<open>NoLen\<close>), and the attacker is not
  callable. The order in which Python iterates the set \<open>targets\<close> is not fixed; the
  model takes the labels ascending. The result comes with the warnings and the lines
  printed.
\<close>

definition final_selection ::
  "int \<Rightarrow> int \<Rightarrow> 'a list \<Rightarrow> int list \<Rightarrow> ('a cell list list \<Rightarrow> py_error + real pyval) option \<Rightarrow>
     (py_error + 'a selection) \<times> string list \<times> string list" where
  "final_selection batch_size final_num0 images labels image_score_fn =
     (if length images \<noteq> length labels then (Inl AssertionError, [], [])
      else
        (let n = int (length images);
             ws = (if final_num0 \<noteq> n \<and> image_score_fn = None
                   then [warn_no_image_score_fn] else []);
             final_num1 = (if final_num0 \<noteq> n \<and> image_score_fn = None then n else final_num0)
         in if final_num1 = n then (Inr (Images images), ws, [])
            else
              (case fst (batch_apply (\<lambda>c. Inl (TypeError ''attacker object is not callable''))
                           [NoLen, Seq (map Item images), Seq (map Label labels)]
                           batch_size None)
               of
                 Inl e \<Rightarrow> (Inl e, ws, [''execute final selection''])
               | Inr scores \<Rightarrow>
                   (case final_loop (sort (remdups labels)) images labels scores final_num1 [] of
                      Inl e \<Rightarrow> (Inl e, ws, [''execute final selection''])
                    | Inr results \<Rightarrow>
                        (case concat_tensor_labels results of
                           Inl e \<Rightarrow> (Inl e, ws, [''execute final selection''])
                         | Inr (t, l) \<Rightarrow>
                             (Inr (ImagesLabels t l), ws, [''execute final selection'']))))))"

section \<open>attack/losses.py: \<open>ComposeImageLoss\<close>\<close>







section \<open>Concrete inputs\<close>

text \<open>The configuration of the normalisation scenario: counts 5, 10 and 20.\<close>

definition ex_cfg :: "(unit, unit, unit) attack_config" where
  "ex_cfg =
     \<lparr>sample_latents_fn = Some (), initial_num = Some 5, initial_latents_score_fn = None,
      initial_select_batch_size = None, optimize_num = Some 10, optimize_batch_size = 5,
      optimize_fn = Some (), final_num = Some 20, final_images_score_fn = None,
      final_select_batch_size = None, save_dir = None, save_optimized_images = False,
      save_final_images = False, save_normalize = True\<rparr>"

text \<open>A metric reporting one accuracy, and a serialiser printing one fixed line.\<close>

definition ex_metric :: "unit \<Rightarrow> unit \<Rightarrow> py_error + (string \<times> real) list" where
  "ex_metric images labels = Inr [(''acc'', 1)]"

definition ex_dump :: "(string \<times> real) list \<Rightarrow> py_error + string" where
  "ex_dump d = Inr ''acc: 1.0''"

text \<open>
  A sampler that numbers its samples from the generator's state, and a score function
  that gives the latent numbered 1 the score 0.9 and every other latent 0.1.
\<close>

definition ex_sampler :: "nat \<Rightarrow> int \<Rightarrow> (py_error + nat list) \<times> nat" where
  "ex_sampler rng n = (Inr (map (\<lambda>i. rng + i) [0..<nat n]), rng + nat n)"

definition ex_score :: "nat cell list list \<Rightarrow> py_error + real pyval" where
  "ex_score chunk =
     (case chunk of
        [] \<Rightarrow> Inl (TypeError ''missing positional argument'')
      | latents # _ \<Rightarrow>
          Inr (Tensor (map (\<lambda>c. if c = Item 1 then 9 / 10 else 1 / 10) latents)))"

text \<open>The length of an input that has one (for the statements about \<open>_check_valid\<close>).\<close>

fun seq_len :: "'x pyinput \<Rightarrow> int" where
  "seq_len (Seq xs) = int (length xs)"
| "seq_len NoLen = 0"









section \<open>Theorems\<close>

subsection \<open>The separator line and the evaluation report\<close>

text \<open>
  Claim C10. \<open>print_split_line\<close> called without content prints the dash line and then
  raises a \<open>TypeError\<close> at \<open>len(content)\<close>; so \<open>_evaluation\<close> never returns normally,
  and when its metrics and the serialiser succeed it fails exactly at the closing
  separator, after the heading, the report and the dash line were printed.
\<close>

theorem print_split_line_none_raises:
  "print_split_line None n =
     (Inl (TypeError ''object of type NoneType has no len()''), [dashes n])
   \<and> fst (evaluation ms yaml_dump images labels description) \<noteq> Inr ()
   \<and> (run_metrics ms images labels [] = Inr result \<longrightarrow> yaml_dump result = Inr s \<longrightarrow>
        evaluation ms yaml_dump images labels (Some d) =
          (Inl (TypeError ''object of type NoneType has no len()''),
           snd (print_split_line (Some d) 60) @ [s, dashes 60]))"
  by (auto simp: evaluation_def print_split_line_def print_as_yaml_def Let_def
           split: sum.splits option.splits prod.splits)

theorem print_split_line_none_raises_witness:
  "run_metrics [ex_metric] () () [] = Inr [(''acc'', 1)]
   \<and> ex_dump [(''acc'', 1)] = Inr ''acc: 1.0''
   \<and> evaluation [ex_metric] ex_dump () () (Some ''Final Image Evaluation'') =
       (Inl (TypeError ''object of type NoneType has no len()''),
        [''------------------ Final Image Evaluation ------------------'',
         ''acc: 1.0'',
         ''------------------------------------------------------------''])"
proof -
  have m: "run_metrics [ex_metric] () () [] = Inr [(''acc'', 1)]"
    by (simp add: ex_metric_def)
  have y: "ex_dump [(''acc'', 1)] = Inr ''acc: 1.0''"
    by (simp add: ex_dump_def)
  have l: "snd (print_split_line (Some ''Final Image Evaluation'') 60) =
             [''------------------ Final Image Evaluation ------------------'']"
    by (simp add: print_split_line_def dashes_def Let_def eval_nat_numeral)
  have d: "dashes 60 = ''------------------------------------------------------------''"
    by (simp add: dashes_def eval_nat_numeral)
  from print_split_line_none_raises
         [of 60 "[ex_metric]" ex_dump "()" "()" None "[(''acc'', 1)]" "''acc: 1.0''"
             "''Final Image Evaluation''"]
       m y l d
  show ?thesis by simp
qed

subsection \<open>Configuration\<close>

text \<open>
  Claim C5. Whenever \<open>_preprocess_config\<close> accepts a configuration, the counts of the
  result satisfy \<open>final_num \<le> optimize_num \<le> initial_num\<close>; for the counts 5, 10, 20
  it raises nothing, emits the two warnings and leaves all three counts at 20.
\<close>

theorem preprocess_config_counts_ordered:
  "(preprocess_config c = (Inr c', ws) \<longrightarrow>
      (\<exists>f opt i. final_num c' = Some f \<and> optimize_num c' = Some opt \<and> initial_num c' = Some i
                 \<and> f \<le> opt \<and> opt \<le> i))
   \<and> preprocess_config ex_cfg =
       (Inr (ex_cfg\<lparr>initial_num := Some 20, optimize_num := Some 20,
                    initial_select_batch_size := Some 5\<rparr>),
        [warn_final_gt_optimize, warn_optimize_gt_initial])"
proof
  show "preprocess_config c = (Inr c', ws) \<longrightarrow>
      (\<exists>f opt i. final_num c' = Some f \<and> optimize_num c' = Some opt \<and> initial_num c' = Some i
                 \<and> f \<le> opt \<and> opt \<le> i)"
    by (auto simp: preprocess_config_def Let_def split: if_splits option.splits)
next
  show "preprocess_config ex_cfg =
       (Inr (ex_cfg\<lparr>initial_num := Some 20, optimize_num := Some 20,
                    initial_select_batch_size := Some 5\<rparr>),
        [warn_final_gt_optimize, warn_optimize_gt_initial])"
    by (simp add: preprocess_config_def ex_cfg_def)
qed

theorem preprocess_config_counts_ordered_witness:
  "final_num (ex_cfg\<lparr>initial_num := Some 20, optimize_num := Some 20,
                     initial_select_batch_size := Some 5\<rparr>) = Some 20
   \<and> optimize_num (ex_cfg\<lparr>initial_num := Some 20, optimize_num := Some 20,
                     initial_select_batch_size := Some 5\<rparr>) = Some 20
   \<and> initial_num (ex_cfg\<lparr>initial_num := Some 20, optimize_num := Some 20,
                     initial_select_batch_size := Some 5\<rparr>) = Some 20
   \<and> fst (preprocess_config ex_cfg) =
        Inr (ex_cfg\<lparr>initial_num := Some 20, optimize_num := Some 20,
                    initial_select_batch_size := Some 5\<rparr>)"
  using preprocess_config_counts_ordered
          [of ex_cfg "ex_cfg\<lparr>initial_num := Some 20, optimize_num := Some 20,
                              initial_select_batch_size := Some 5\<rparr>"
              "[warn_final_gt_optimize, warn_optimize_gt_initial]"]
  by (simp add: ex_cfg_def)

text \<open>
  The method \<open>__init__\<close> by itself would raise the configuration errors: a
  configuration that asks to save images without a save directory, or lacks the
  sampler, the optimisation function or \<open>final_num\<close>, makes \<open>_preprocess_config\<close>
  raise \<open>RuntimeError\<close> before any warning.
\<close>

lemma attacker_init_raises:
  "((save_optimized_images c \<or> save_final_images c)
      \<and> (save_dir c = None \<or> save_dir c = Some []) \<longrightarrow>
      attacker_init c ms = (Inl (RuntimeError ''save_dir is not set''), []))
   \<and> (sample_latents_fn c = None \<or> optimize_fn c = None \<or> final_num c = None \<longrightarrow>
      (\<exists>msg. attacker_init c ms = (Inl (RuntimeError msg), [])))"
  by (auto simp: attacker_init_def preprocess_config_def)

text \<open>
  Claim C8. Constructing the attacker does not raise the configuration error: for every
  configuration and every list of metrics the call of the class raises \<open>TypeError\<close> in
  \<open>ABCMeta.__new__\<close>, and neither \<open>__init__\<close> nor \<open>_preprocess_config\<close> runs. For the
  configuration with \<open>save_optimized_images\<close> set and no \<open>save_dir\<close> the claim expects
  the \<open>RuntimeError\<close> that the method \<open>__init__\<close> would raise.
\<close>

theorem construct_attacker_raises_type_error:
  "construct_attacker c ms =
     (Inl (TypeError ''ABCMeta.__new__() missing 1 required positional argument: namespace''), [])
   \<and> (construct_attacker (ex_cfg\<lparr>save_optimized_images := True\<rparr>) ([] :: unit list)
        :: (py_error + (unit, unit, unit, unit, unit) attacker) \<times> string list)
       \<noteq> (Inl (RuntimeError ''save_dir is not set''), [])
   \<and> (attacker_init (ex_cfg\<lparr>save_optimized_images := True\<rparr>) ([] :: unit list)
        :: (py_error + (unit, unit, unit, unit, unit) attacker) \<times> string list)
       = (Inl (RuntimeError ''save_dir is not set''), [])"
  by (simp add: construct_attacker_def abcmeta_new_def attacker_init_def
                preprocess_config_def ex_cfg_def)

subsection \<open>\<open>batch_apply\<close>: the check of the inputs\<close>

lemma input_lens_NoLen:
  "NoLen \<in> set inputs \<Longrightarrow>
     input_lens inputs = Inl (RuntimeError ''some inputs have no attr len'')"
proof (induction inputs)
  case Nil
  then show ?case by simp
next
  case (Cons inp rest)
  then show ?case by (cases inp) (auto split: sum.splits)
qed

lemma input_lens_Seq:
  "NoLen \<notin> set inputs \<Longrightarrow> input_lens inputs = Inr (map seq_len inputs)"
proof (induction inputs)
  case Nil
  then show ?case by simp
next
  case (Cons inp rest)
  then show ?case by (cases inp) auto
qed

lemma check_valid_mismatch:
  assumes "NoLen \<notin> set inputs" "Seq xs \<in> set inputs" "Seq ys \<in> set inputs"
    and "length xs \<noteq> length ys"
  shows "check_valid inputs = Inl (RuntimeError ''lengths of all inputs are not the same'')"
proof -
  from assms(2) obtain inp rest where inputs: "inputs = inp # rest"
    by (cases inputs) auto
  have lens: "input_lens inputs = Inr (map seq_len inputs)"
    using assms(1) by (rule input_lens_Seq)
  have "\<not> list_all (\<lambda>x. x = seq_len inp) (map seq_len inputs)"
  proof
    assume a: "list_all (\<lambda>x. x = seq_len inp) (map seq_len inputs)"
    from a assms(2) have "seq_len (Seq xs) = seq_len inp" by (auto simp: list_all_iff)
    moreover from a assms(3) have "seq_len (Seq ys) = seq_len inp" by (auto simp: list_all_iff)
    ultimately show False using assms(4) by simp
  qed
  then show ?thesis using lens inputs by (simp add: check_valid_def)
qed

text \<open>
  Claim C9. When some input has no \<open>len\<close>, or when two inputs have different lengths,
  \<open>batch_apply\<close> raises the \<open>RuntimeError\<close> of \<open>_check_valid\<close>, and the run has no event:
  \<open>fn\<close> was not called on any chunk and nothing was printed.
\<close>

theorem batch_apply_length_mismatch:
  "(NoLen \<in> set inputs \<longrightarrow>
      batch_apply fn inputs B d = (Inl (RuntimeError ''some inputs have no attr len''), []))
   \<and> (NoLen \<notin> set inputs \<longrightarrow> Seq xs \<in> set inputs \<longrightarrow> Seq ys \<in> set inputs \<longrightarrow>
        length xs \<noteq> length ys \<longrightarrow>
      batch_apply fn inputs B d =
        (Inl (RuntimeError ''lengths of all inputs are not the same''), []))"
proof (intro conjI impI)
  assume a: "NoLen \<in> set inputs"
  then have "inputs \<noteq> []" by auto
  with input_lens_NoLen [OF a]
  show "batch_apply fn inputs B d = (Inl (RuntimeError ''some inputs have no attr len''), [])"
    by (simp add: batch_apply_def check_valid_def)
next
  assume "NoLen \<notin> set inputs" "Seq xs \<in> set inputs" "Seq ys \<in> set inputs"
    and "length xs \<noteq> length ys"
  then have "check_valid inputs = Inl (RuntimeError ''lengths of all inputs are not the same'')"
    by (rule check_valid_mismatch)
  then show "batch_apply fn inputs B d =
      (Inl (RuntimeError ''lengths of all inputs are not the same''), [])"
    by (simp add: batch_apply_def)
qed

theorem batch_apply_length_mismatch_witness:
  "batch_apply ex_score [Seq [Item 0, Item 1], Seq [Label 3]] 1 None =
     (Inl (RuntimeError ''lengths of all inputs are not the same''), [])
   \<and> batch_apply ex_score [Seq [Item 0, Item 1], NoLen] 1 None =
     (Inl (RuntimeError ''some inputs have no attr len''), [])"
  using batch_apply_length_mismatch
          [of "[Seq [Item 0, Item 1], Seq [Label 3]]" ex_score 1 None
              "[Item 0, Item 1]" "[Label 3]"]
        batch_apply_length_mismatch
          [of "[Seq [Item 0, Item 1], NoLen]" ex_score 1 None "[]" "[]"]
  by simp

subsection \<open>\<open>batch_apply\<close>: chunks and result\<close>











lemma called_chunks_Printed [simp]: "called_chunks (map Printed out @ evs) = called_chunks evs"
  by (induction out) auto

lemma called_chunks_Printed' [simp]: "called_chunks (map Printed out) = []"
  by (induction out) auto





























lemma gather_fields_length_le: "gather_fields vs rss = Inr gs \<Longrightarrow> length gs \<le> length vs"
  by (induction vs arbitrary: rss gs) (auto split: sum.splits if_splits)





















subsection \<open>Selection\<close>

text \<open>
  Claim C6. \<open>concat_tensor_labels\<close> returns no pair for any candidate set: with a label
  in it the first iteration raises \<open>TypeError\<close> (the loop unpacks a key of the
  dictionary, an integer), and the empty set raises in \<open>torch.cat\<close>. For the set
  \<open>{3: [10, 11], 7: [12]}\<close> the claim expects the pair \<open>([10, 11, 12], [3, 3, 7])\<close>.
\<close>

theorem concat_tensor_labels_raises:
  "concat_tensor_labels target_dict =
     (if target_dict = []
      then Inl (RuntimeError ''torch.cat(): expected a non-empty list of Tensors'')
      else Inl (TypeError ''cannot unpack non-iterable int object''))
   \<and> concat_tensor_labels [(3, [10 :: nat, 11]), (7, [12])] \<noteq> Inr ([10, 11, 12], [3, 3, 7])"
  by (cases target_dict) (auto simp: concat_tensor_labels_def unpack_pair_def)

lemma initial_latents_never_returns:
  "fst (initial_latents sampler bs sn sel labels fn rng) \<noteq> Inr r"
  by (auto simp: initial_latents_def Let_def range_of_list_def
           split: sum.splits prod.splits if_splits)

text \<open>
  Claim C2. With a score function, \<open>initial_latents\<close> never returns a candidate set. In
  the scenario (labels 3 and 7, two samples, one to select, scores 0.1 and 0.9) the
  scoring itself succeeds and gives \<open>[0.1, 0.9]\<close>; then \<open>range(labels)\<close> raises
  \<open>TypeError\<close>, where the claim expects label 3 mapped to the latent scored 0.9.
\<close>

theorem initial_latents_scored_raises:
  "fst (initial_latents sampler bs sn sel labels (Some f) rng) \<noteq> Inr r
   \<and> fst (batch_apply ex_score [Seq [Item 0, Item 1], Seq [Label 3, Label 7]] 2 None) =
       Inr (Tensor [1 / 10, 9 / 10])
   \<and> initial_latents ex_sampler 2 2 1 [3, 7] (Some ex_score) 0 =
       (Inl (TypeError ''list object cannot be interpreted as an integer''), 2, [])"
proof (intro conjI)
  show "fst (initial_latents sampler bs sn sel labels (Some f) rng) \<noteq> Inr r"
    by (rule initial_latents_never_returns)
  show "fst (batch_apply ex_score [Seq [Item 0, Item 1], Seq [Label 3, Label 7]] 2 None) =
       Inr (Tensor [1 / 10, 9 / 10])"
    by code_simp
  show "initial_latents ex_sampler 2 2 1 [3, 7] (Some ex_score) 0 =
       (Inl (TypeError ''list object cannot be interpreted as an integer''), 2, [])"
    by code_simp
qed

text \<open>
  Claim C3. Without a score function and with \<open>sample_num = select_num\<close>,
  \<open>initial_latents\<close> does not return the sampler's output: the branch that samples has
  no \<open>return\<close>, so the sampler is called a second time (the generator's state advances
  twice) and the scoring is attempted with \<open>None\<close> as the function, which raises.
\<close>

theorem initial_latents_unscored_raises:
  "fst (initial_latents sampler bs n n labels None rng) \<noteq> Inr r
   \<and> initial_latents ex_sampler 5 1 1 [3] None 0 =
       (Inl (TypeError ''NoneType object is not callable''), 2, [])"
proof (intro conjI)
  show "fst (initial_latents sampler bs n n labels None rng) \<noteq> Inr r"
    by (rule initial_latents_never_returns)
  show "initial_latents ex_sampler 5 1 1 [3] None 0 =
       (Inl (TypeError ''NoneType object is not callable''), 2, [])"
    by code_simp
qed

text \<open>
  Claim C4. When \<open>final_num\<close> is the number of images, or no score function is given,
  \<open>final_selection\<close> returns the images alone (\<open>return images\<close>), not the pair of images
  and labels its caller unpacks and its other \<open>return\<close> builds.
\<close>

theorem final_selection_returns_images_only:
  "length images = length labels \<Longrightarrow> k = int (length images) \<or> fn = None \<Longrightarrow>
     fst (final_selection bs k images labels fn) = Inr (Images images)
     \<and> fst (final_selection bs k images labels fn) \<noteq> Inr (ImagesLabels images labels)"
  by (auto simp: final_selection_def Let_def)

theorem final_selection_returns_images_only_witness:
  "length [10 :: nat] = length [3 :: int]
   \<and> fst (final_selection 5 1 [10 :: nat] [3] None) = Inr (Images [10])
   \<and> fst (final_selection 5 1 [10 :: nat] [3] None) \<noteq> Inr (ImagesLabels [10] [3])"
  using final_selection_returns_images_only [of "[10 :: nat]" "[3]" 1 None 5]
  by simp

subsection \<open>\<open>ComposeImageLoss\<close>\<close>









end
